theory Spec2Isabelle
  imports Main "HOL-Library.AList" "HOL-Library.Sublist" "HOL-Library.Char_ord"
    "HOL-Library.List_Lexorder" "HOL-Library.Code_Target_Nat"
begin

section \<open>Values, errors and the environment of build.py\<close>

text \<open>
  The values that \<^verbatim>\<open>json.load\<close> produces. \<open>JNull\<close> is Python's \<^verbatim>\<open>None\<close>; numbers are
  integers (the script never computes with them). A dict is an association list in
  insertion order, as Python iterates it. \<open>JDict\<close> is a dict with a key that is not a
  string: the parser never returns one, but \<^verbatim>\<open>dict.update\<close> with a sequence of pairs
  (line 272) can build one.
\<close>

datatype json =
    JNull
  | JBool bool
  | JNum int
  | JStr string
  | JList "json list"
  | JObj "(string \<times> json) list"
  | JDict "(json \<times> json) list"

type_synonym dict = "(string \<times> json) list"

text \<open>
  Exceptions are values: the class of the exception and its message (\<^verbatim>\<open>str(e)\<close>). For
  the exceptions that Python itself raises the message is shortened to the name the
  message is about: the variable, the key or the attribute.
\<close>

datatype exc_class =
    IOError
  | ValueError
  | JSONDecodeError
  | UnicodeDecodeError
  | KeyError
  | TypeError
  | AttributeError
  | UnboundLocalError
  | PyException
  | GitError
  | OSError
  | CalledProcessError

datatype error = Raise exc_class string

fun exc_type :: "error \<Rightarrow> exc_class" where
  "exc_type (Raise c m) = c"

fun exc_msg :: "error \<Rightarrow> string" where
  "exc_msg (Raise c m) = m"

text \<open>
  A git reference as GitPython lists it in \<^verbatim>\<open>repo.refs\<close>: its name (\<^verbatim>\<open>master\<close> for a local
  head, \<^verbatim>\<open>origin/master\<close> for a remote branch, \<^verbatim>\<open>v1.0\<close> for a tag), its kind and the
  commit it points to. GitPython lists the references sorted by path: the heads, then
  the remote references, then the tags.
\<close>

datatype ref_kind = Head | RemoteReference | TagReference

record commit =
  committed_date :: int
  hexsha :: string

record gitref =
  r_name :: string
  r_kind :: ref_kind
  r_commit :: commit

text \<open>The handle \<^verbatim>\<open>git.Repo\<close>: working directory, references, remote url, current commit.\<close>

record repo =
  working_dir :: string
  refs :: "gitref list"
  remote_url :: "error + string"
  head_commit :: commit

text \<open>
  Everything outside the script: the file system, the JSON parser, \<^verbatim>\<open>str.format\<close>,
  GitPython and \<^verbatim>\<open>subprocess\<close>. An operation that can raise returns the exception.
\<close>

record world =
  cwd :: string
  isdir :: "string \<Rightarrow> bool"
  isfile :: "string \<Rightarrow> bool"
  path_exists :: "string \<Rightarrow> bool"
  open_file :: "string \<Rightarrow> error + string"
  json_loads :: "string \<Rightarrow> error + json"
  rmtree :: "string \<Rightarrow> error option"
  makedirs :: "string \<Rightarrow> error option"
  open_repo :: "string \<Rightarrow> error + repo"
  clone_from :: "string \<Rightarrow> string \<Rightarrow> error + repo"
  checkout :: "repo \<Rightarrow> gitref \<Rightarrow> error option"
  str_format :: "string \<Rightarrow> dict \<Rightarrow> error + string"
  check_output :: "string list \<Rightarrow> error + string"

section \<open>Constants of the script\<close>

definition GITHUB_GIT :: string where "GITHUB_GIT = ''https://github.com/{fork}/{name}''"
definition PKG_AREA :: string where "PKG_AREA = ''/tmp/yoda-packages''"
definition PKG_SUBDIR :: string where "PKG_SUBDIR = ''packages''"
definition REPOS_JSON :: string where "REPOS_JSON = ''repos.json''"
definition REPOS_DEFAULT_KW :: string where "REPOS_DEFAULT_KW = ''DEFAULT''"
definition FPM_JSON :: string where "FPM_JSON = ''fpm.json''"
definition DEFAULT_ARCH :: string where "DEFAULT_ARCH = ''noarch''"
definition DEFAULT_PKG :: string where "DEFAULT_PKG = ''rpm''"
definition FPM :: string where "FPM = ''fpm''"
definition ARGS_KW :: string where "ARGS_KW = ''ARGS''"
definition DEFAULT_INPUT_TYPE :: string where "DEFAULT_INPUT_TYPE = ''dir''"
definition EXCLUDE_DEFAULT :: "json list" where "EXCLUDE_DEFAULT = [JStr ''*/.git*'']"

section \<open>load_json\<close>

text \<open>
  Line 67, \<^verbatim>\<open>type(e)(msg)\<close>: the class of the caught exception is called with the message
  alone. ValueError (what the parser of Python 2 raises) and the other built-in classes
  take it; the constructors of JSONDecodeError (what the parser of Python 3 raises),
  UnicodeDecodeError and CalledProcessError need more arguments, and the call itself
  raises TypeError, whose message holds neither the filename nor the parse error.
\<close>

fun reraise :: "exc_class \<Rightarrow> string \<Rightarrow> error" where
  "reraise JSONDecodeError msg =
     Raise TypeError ''__init__() missing 2 required positional arguments: doc and pos''"
| "reraise UnicodeDecodeError msg =
     Raise TypeError ''function takes exactly 5 arguments (1 given)''"
| "reraise CalledProcessError msg =
     Raise TypeError ''__init__() missing 1 required positional argument: cmd''"
| "reraise c msg = Raise c msg"

text \<open>
  \<^verbatim>\<open>open(fn, 'r')\<close> stands outside the \<^verbatim>\<open>try\<close>: its exception leaves the function as it
  is. An exception \<open>e\<close> of \<^verbatim>\<open>json.load\<close> is caught, and \<^verbatim>\<open>type(e)\<close> is called with the
  message \<^verbatim>\<open>"Failed to load json {}: {}".format(fn, e)\<close> to build the exception raised.
\<close>

definition load_json :: "world \<Rightarrow> string \<Rightarrow> error + json" where
  "load_json w fn =
     (case open_file w fn of
        Inl e \<Rightarrow> Inl e
      | Inr f \<Rightarrow>
          (case json_loads w f of
             Inl e \<Rightarrow> Inl (reraise (exc_type e) (''Failed to load json '' @ fn @ '': '' @ exc_msg e))
           | Inr j \<Rightarrow> Inr j))"

text \<open>The message that line 67 builds begins with this text.\<close>

definition is_load_failure :: "string \<Rightarrow> error \<Rightarrow> bool" where
  "is_load_failure fn e = prefix (''Failed to load json '' @ fn @ '': '') (exc_msg e)"

section \<open>Python built-ins used by the script\<close>

text \<open>\<^verbatim>\<open>d.get(k, default)\<close>, \<^verbatim>\<open>d[k] = v\<close>, \<^verbatim>\<open>d.pop(k, default)\<close>, \<^verbatim>\<open>d.setdefault(k, v)\<close> and
  \<^verbatim>\<open>d.update(e)\<close> on dicts in insertion order: a key that exists keeps its place, a new
  key goes to the end.\<close>

definition dict_get :: "dict \<Rightarrow> string \<Rightarrow> json \<Rightarrow> json" where
  "dict_get d k dflt = (case map_of d k of Some v \<Rightarrow> v | None \<Rightarrow> dflt)"

definition dict_set :: "dict \<Rightarrow> string \<Rightarrow> json \<Rightarrow> dict" where
  "dict_set d k v = AList.update k v d"

definition dict_pop :: "dict \<Rightarrow> string \<Rightarrow> json \<Rightarrow> json \<times> dict" where
  "dict_pop d k dflt = (dict_get d k dflt, AList.delete k d)"

definition dict_setdefault :: "dict \<Rightarrow> string \<Rightarrow> json \<Rightarrow> json \<times> dict" where
  "dict_setdefault d k v =
     (case map_of d k of Some x \<Rightarrow> (x, d) | None \<Rightarrow> (v, dict_set d k v))"

definition dict_update :: "dict \<Rightarrow> dict \<Rightarrow> dict" where
  "dict_update d e = fold (\<lambda>(k, v) acc. dict_set acc k v) e d"

text \<open>Truth value of a JSON value in an \<^verbatim>\<open>if\<close>.\<close>

fun py_truthy :: "json \<Rightarrow> bool" where
  "py_truthy JNull = False"
| "py_truthy (JBool b) = b"
| "py_truthy (JNum n) = (n \<noteq> 0)"
| "py_truthy (JStr s) = (s \<noteq> [])"
| "py_truthy (JList xs) = (xs \<noteq> [])"
| "py_truthy (JObj d) = (d \<noteq> [])"
| "py_truthy (JDict d) = (d \<noteq> [])"

text \<open>\<^verbatim>\<open>os.path.join\<close> of two POSIX paths.\<close>

definition path_join :: "string \<Rightarrow> string \<Rightarrow> string" where
  "path_join a b =
     (if prefix ''/'' b then b
      else if a = [] \<or> suffix ''/'' a then a @ b
      else a @ ''/'' @ b)"

text \<open>\<^verbatim>\<open>str\<close> of an integer.\<close>

fun str_nat :: "nat \<Rightarrow> string" where
  "str_nat n =
     (if n < 10 then [''0123456789'' ! n]
      else str_nat (n div 10) @ [''0123456789'' ! (n mod 10)])"

definition str_int :: "int \<Rightarrow> string" where
  "str_int i = (if i < 0 then ''-'' @ str_nat (nat (- i)) else str_nat (nat i))"

text \<open>\<^verbatim>\<open>if not isinstance(x, (list, tuple)): x = [x]\<close> (lines 171-172 and 215-216); JSON has
  no tuples.\<close>

fun as_list :: "json \<Rightarrow> json list" where
  "as_list (JList xs) = xs"
| "as_list x = [x]"

section \<open>prep_repo\<close>

text \<open>
  Lines 94-109, the loop over \<^verbatim>\<open>['tag', 'branch']\<close>. For \<^verbatim>\<open>'branch'\<close> the name looked for
  is \<^verbatim>\<open>"origin/" + ref_name\<close>, a TypeError when \<^verbatim>\<open>ref_name\<close> is no string. The candidates
  are the references of \<^verbatim>\<open>repo.refs\<close> with exactly that name, whatever their kind; the
  first one is taken and the loop is left. The result is the loop's \<^verbatim>\<open>ref_type\<close>, \<^verbatim>\<open>ref\<close> and \<^verbatim>\<open>ref_version\<close>,
  or \<open>None\<close> when the loop ends without assigning \<^verbatim>\<open>ref\<close>.
\<close>

definition strip_v :: "string \<Rightarrow> string" where
  "strip_v ref_version = (if prefix ''v'' ref_version then drop 1 ref_version else ref_version)"

fun resolve_loop :: "repo \<Rightarrow> dict \<Rightarrow> json \<Rightarrow> string list \<Rightarrow>
    error + (string \<times> gitref \<times> json) option" where
  "resolve_loop rp repo_d ref_name [] = Inr None"
| "resolve_loop rp repo_d ref_name (ref_type # rest) =
     (case (if ref_type = ''branch''
            then (case ref_name of
                    JStr s \<Rightarrow> Inr (JStr (''origin/'' @ s))
                  | _ \<Rightarrow> Inl (Raise TypeError ''cannot concatenate str and non-str''))
            else Inr ref_name) of
        Inl e \<Rightarrow> Inl e
      | Inr full_name \<Rightarrow>
          (case filter (\<lambda>r. JStr (r_name r) = full_name) (refs rp) of
             [] \<Rightarrow> resolve_loop rp repo_d ref_name rest
           | ref # _ \<Rightarrow>
               (if py_truthy (dict_get repo_d ''ref_is_version'' (JBool False))
                then (case ref_name of
                        JStr s \<Rightarrow> Inr (Some (ref_type, ref, JStr (strip_v s)))
                      | _ \<Rightarrow> Inl (Raise AttributeError ''startswith''))
                else Inr (Some (ref_type, ref, JNull)))))"

text \<open>Lines 89-109: without a \<^verbatim>\<open>ref\<close> key the loop is not entered.\<close>

definition resolve_ref :: "repo \<Rightarrow> dict \<Rightarrow> error + (string \<times> gitref \<times> json) option" where
  "resolve_ref rp repo_d =
     (case map_of repo_d ''ref'' of
        None \<Rightarrow> Inr None
      | Some ref_name \<Rightarrow> resolve_loop rp repo_d ref_name [''tag'', ''branch''])"

text \<open>
  Lines 75-87: the working copy. After a wipe the directory is gone, so the repository
  is cloned.
\<close>

definition get_repo :: "world \<Rightarrow> dict \<Rightarrow> bool \<Rightarrow> error + repo" where
  "get_repo w repo_d wipe =
     (case map_of repo_d ''name'' of
        None \<Rightarrow> Inl (Raise KeyError ''name'')
      | Some (JStr nm) \<Rightarrow>
          (let repo_path = path_join PKG_AREA nm in
           case str_format w GITHUB_GIT repo_d of
             Inl e \<Rightarrow> Inl e
           | Inr url \<Rightarrow>
               (case (if wipe \<and> isdir w repo_path then rmtree w repo_path else None) of
                  Some e \<Rightarrow> Inl e
                | None \<Rightarrow>
                    (if isdir w repo_path \<and> \<not> wipe
                     then open_repo w repo_path
                     else clone_from w url repo_path)))
      | Some _ \<Rightarrow> Inl (Raise TypeError ''os.path.join: name is not a string''))"

text \<open>
  prep_repo. Line 111 reads the local variable \<^verbatim>\<open>ref\<close>: where the loop has not assigned
  it, Python raises UnboundLocalError there, before the checkout. The handle returned
  has the commit of the checked-out reference as its current commit.
\<close>

definition prep_repo :: "world \<Rightarrow> dict \<Rightarrow> bool \<Rightarrow> error + (repo \<times> json)" where
  "prep_repo w repo_d wipe =
     (case get_repo w repo_d wipe of
        Inl e \<Rightarrow> Inl e
      | Inr rp \<Rightarrow>
          (case resolve_ref rp repo_d of
             Inl e \<Rightarrow> Inl e
           | Inr None \<Rightarrow> Inl (Raise UnboundLocalError ''ref'')
           | Inr (Some (ref_type, ref, ref_version)) \<Rightarrow>
               (case checkout w rp ref of
                  Some e \<Rightarrow> Inl e
                | None \<Rightarrow>
                    Inr (rp\<lparr>head_commit := r_commit ref\<rparr>,
                         dict_get repo_d ''version'' ref_version))))"

section \<open>gather_instructions\<close>

text \<open>Lines 152-158: the six script names, in the order of the two nested loops, and
  the loop that records every script found in the instructions directory.\<close>

definition script_names :: "string list" where
  "script_names =
     concat (map (\<lambda>op. map (\<lambda>when. when @ ''-'' @ op) [''before'', ''after''])
                 [''install'', ''remove'', ''upgrade''])"

definition add_scripts :: "world \<Rightarrow> string \<Rightarrow> dict \<Rightarrow> dict" where
  "add_scripts w inst fpm =
     fold (\<lambda>opname acc.
             (let script = path_join inst opname
              in if isfile w script then dict_set acc opname (JStr script) else acc))
          script_names fpm"

text \<open>Lines 173-175: each default pattern that is not in the list is appended.\<close>

definition add_default_excludes :: "json list \<Rightarrow> json list \<Rightarrow> json list" where
  "add_default_excludes defs excl =
     fold (\<lambda>def_excl acc. if def_excl \<notin> set acc then acc @ [def_excl] else acc) defs excl"

text \<open>Lines 170-175: the list stored under \<^verbatim>\<open>exclude\<close>, from the value \<^verbatim>\<open>fpm.get('exclude', [])\<close>.\<close>

definition normalize_exclude :: "json \<Rightarrow> json list" where
  "normalize_exclude excl = add_default_excludes EXCLUDE_DEFAULT (as_list excl)"

text \<open>Lines 169-176 on the dict.\<close>

definition insert_default_excludes :: "dict \<Rightarrow> dict" where
  "insert_default_excludes fpm =
     dict_set fpm ''exclude'' (JList (normalize_exclude (dict_get fpm ''exclude'' (JList []))))"

text \<open>Lines 160-167: the defaults for keys that are absent.\<close>

definition set_defaults :: "string \<Rightarrow> repo \<Rightarrow> string \<Rightarrow> dict \<Rightarrow> dict" where
  "set_defaults name rp url fpm =
     (let last_commit = head_commit rp;
          fpm1 = snd (dict_setdefault fpm ''iteration''
                   (JStr (str_int (committed_date last_commit) @ ''.'' @ take 8 (hexsha last_commit))));
          fpm2 = snd (dict_setdefault fpm1 ''url'' (JStr url));
          fpm3 = snd (dict_setdefault fpm2 ''name'' (JStr name));
          fpm4 = snd (dict_setdefault fpm3 ''architecture'' (JStr DEFAULT_ARCH))
      in snd (dict_setdefault fpm4 ''input-type'' (JStr DEFAULT_INPUT_TYPE)))"

text \<open>Lines 126-137: the directory chosen, \<open>None\<close> when \<^verbatim>\<open>inst\<close> is left unassigned.\<close>

definition select_inst :: "world \<Rightarrow> string \<Rightarrow> repo \<Rightarrow> string option" where
  "select_inst w name rp =
     (let ginst = path_join (path_join (cwd w) ''instructions'') name;
          linst = path_join (working_dir rp) ''packaging''
      in if isdir w linst then Some linst
         else if isdir w ginst then Some ginst
         else None)"

text \<open>
  gather_instructions. Line 139 reads the local variable \<^verbatim>\<open>inst\<close>; where neither
  directory exists it was never assigned and Python raises UnboundLocalError, before
  the test of line 139 is made. The four \<^verbatim>\<open>raise Exception(...)\<close> keep their messages.
\<close>

definition gather_instructions :: "world \<Rightarrow> string \<Rightarrow> repo \<Rightarrow> json \<Rightarrow> error + dict" where
  "gather_instructions w name rp version =
     (case select_inst w name rp of
        None \<Rightarrow> Inl (Raise UnboundLocalError ''inst'')
      | Some inst \<Rightarrow>
          if \<not> isdir w inst then Inl (Raise PyException ''No instructions path found'')
          else
            (let fpm_json = path_join inst FPM_JSON in
             if \<not> isfile w fpm_json
             then Inl (Raise PyException (''No FPM instructions '' @ fpm_json @ '' found''))
             else
               (case load_json w fpm_json of
                  Inl e \<Rightarrow> Inl e
                | Inr (JObj fpm) \<Rightarrow>
                    (case find (\<lambda>k. length k = 1) (map fst fpm) of
                       Some k \<Rightarrow>
                         Inl (Raise PyException
                                (''Found single letter '' @ k @ '' (i.e. short option)''))
                     | None \<Rightarrow>
                         (let fpm1 = add_scripts w inst fpm in
                          case remote_url rp of
                            Inl e \<Rightarrow> Inl e
                          | Inr url \<Rightarrow>
                              (let fpm2 = set_defaults name rp url fpm1;
                                   fpm3 = insert_default_excludes fpm2;
                                   (got_version, fpm4) = dict_setdefault fpm3 ''version'' version
                               in if got_version = JNull
                                  then Inl (Raise PyException (''No version for '' @ name))
                                  else Inr fpm4)))
                | Inr _ \<Rightarrow> Inl (Raise AttributeError ''keys''))))"

text \<open>The errors of gather_instructions under the names the specification gives them.\<close>

definition InstructionsNotFound :: error where
  "InstructionsNotFound = Raise PyException ''No instructions path found''"

definition MissingVersion :: "string \<Rightarrow> error" where
  "MissingVersion name = Raise PyException (''No version for '' @ name)"

section \<open>run_fpm\<close>

text \<open>Lines 196-203: the command before any option of the dict is added.\<close>

definition base_cmds :: "string \<Rightarrow> string list" where
  "base_cmds pkgdir =
     [FPM, ''--force'', ''--verbose'', ''--template-scripts'',
      ''--output-type'', DEFAULT_PKG, ''--package'', pkgdir]"

text \<open>Lines 208-210, one generic key: its value moves to the key of the package type,
  replacing the value that key had.\<close>

definition rename_key :: "string \<Rightarrow> dict \<Rightarrow> dict" where
  "rename_key k fpm =
     (case map_of fpm k of
        None \<Rightarrow> fpm
      | Some v \<Rightarrow> dict_set (AList.delete k fpm) (DEFAULT_PKG @ ''-'' @ k) v)"

text \<open>Lines 207-210: \<^verbatim>\<open>user\<close> and \<^verbatim>\<open>group\<close> become \<^verbatim>\<open>rpm-user\<close> and \<^verbatim>\<open>rpm-group\<close>.\<close>

definition rename_generic :: "dict \<Rightarrow> dict" where
  "rename_generic fpm = fold rename_key [''user'', ''group''] fpm"

text \<open>The values that lines 218-222 can render: a boolean, or a value with a \<^verbatim>\<open>format\<close>
  method, that is a string.\<close>

fun is_flag_or_text :: "json \<Rightarrow> bool" where
  "is_flag_or_text (JBool b) = True"
| "is_flag_or_text (JStr s) = True"
| "is_flag_or_text v = False"

text \<open>
  Lines 218-226, one element \<^verbatim>\<open>orig_v\<close> of an option: a boolean adds the bare flag when
  true and nothing when false; any other value is rendered with its \<^verbatim>\<open>format\<close> method,
  which only strings have.
\<close>

fun add_elem :: "world \<Rightarrow> dict \<Rightarrow> string \<Rightarrow> string list \<times> string list \<Rightarrow> json \<Rightarrow>
    error + (string list \<times> string list)" where
  "add_elem w template_data orig_k (cmds, args) (JBool orig_v) =
     Inr (if orig_v then cmds @ [''--'' @ orig_k] else cmds, args)"
| "add_elem w template_data orig_k (cmds, args) (JStr orig_v) =
     (case str_format w orig_v template_data of
        Inl e \<Rightarrow> Inl e
      | Inr v \<Rightarrow>
          if orig_k = ARGS_KW then Inr (cmds, args @ [v])
          else Inr (cmds @ [''--'' @ orig_k, v], args))"
| "add_elem w template_data orig_k (cmds, args) orig_v =
     Inl (Raise AttributeError ''format'')"

text \<open>Lines 217-226, the elements of one option in order.\<close>

fun add_elems :: "world \<Rightarrow> dict \<Rightarrow> string \<Rightarrow> string list \<times> string list \<Rightarrow> json list \<Rightarrow>
    error + (string list \<times> string list)" where
  "add_elems w template_data orig_k acc [] = Inr acc"
| "add_elems w template_data orig_k acc (orig_v # origs) =
     (case add_elem w template_data orig_k acc orig_v of
        Inl e \<Rightarrow> Inl e
      | Inr acc' \<Rightarrow> add_elems w template_data orig_k acc' origs)"

text \<open>Lines 213-226, the items of the dict in order.\<close>

fun add_options :: "world \<Rightarrow> dict \<Rightarrow> string list \<times> string list \<Rightarrow> dict \<Rightarrow>
    error + (string list \<times> string list)" where
  "add_options w template_data acc [] = Inr acc"
| "add_options w template_data acc ((orig_k, origs) # items) =
     (case add_elems w template_data orig_k acc (as_list origs) of
        Inl e \<Rightarrow> Inl e
      | Inr acc' \<Rightarrow> add_options w template_data acc' items)"

text \<open>Lines 190-229: the command handed to \<^verbatim>\<open>subprocess.check_output\<close>.\<close>

definition fpm_command :: "world \<Rightarrow> dict \<Rightarrow> dict \<Rightarrow> error + string list" where
  "fpm_command w fpm template_data =
     (let td = dict_update template_data fpm;
          pkgdir = path_join PKG_AREA PKG_SUBDIR
      in case (if \<not> path_exists w pkgdir then makedirs w pkgdir else None) of
           Some e \<Rightarrow> Inl e
         | None \<Rightarrow>
             (case add_options w td (base_cmds pkgdir, []) (rename_generic fpm) of
                Inl e \<Rightarrow> Inl e
              | Inr (cmds, args) \<Rightarrow> Inr (cmds @ args)))"

text \<open>
  run_fpm: the outcome, and the commands that were executed (none when the command
  could not be built). An error of the packaging tool is logged and raised again.
\<close>

definition run_fpm :: "world \<Rightarrow> dict \<Rightarrow> dict \<Rightarrow> (error + string) \<times> string list list" where
  "run_fpm w fpm template_data =
     (case fpm_command w fpm template_data of
        Inl e \<Rightarrow> (Inl e, [])
      | Inr cmds \<Rightarrow> (check_output w cmds, [cmds]))"

section \<open>parse_repos\<close>

text \<open>
  \<^verbatim>\<open>x.pop(k, default)\<close> on a value of the file: a dict gives the value and the dict
  without the key; a list has a \<^verbatim>\<open>pop\<close> that takes one argument at most, a TypeError;
  any other value has no \<^verbatim>\<open>pop\<close>.
\<close>

fun py_pop :: "json \<Rightarrow> string \<Rightarrow> json \<Rightarrow> error + json \<times> dict" where
  "py_pop (JObj d) k dflt = Inr (dict_pop d k dflt)"
| "py_pop (JList xs) k dflt = Inl (Raise TypeError ''pop expected at most 1 argument, got 2'')"
| "py_pop x k dflt = Inl (Raise AttributeError ''pop'')"

text \<open>
  \<^verbatim>\<open>tpls.update(x)\<close> where \<open>x\<close> is no dict: \<open>x\<close> is iterated, and each element must be a
  sequence of length two, the key and the value. A list of two elements gives them; a
  string of two characters gives the two characters; a dict of two keys gives the two
  keys. A key must be hashable (a list or a dict is not), and the keys \<^verbatim>\<open>True\<close> and \<^verbatim>\<open>1\<close>,
  \<^verbatim>\<open>False\<close> and \<^verbatim>\<open>0\<close> are the same key. A key that exists keeps its place and its first
  spelling.
\<close>

fun hashable :: "json \<Rightarrow> bool" where
  "hashable (JList xs) = False"
| "hashable (JObj d) = False"
| "hashable (JDict d) = False"
| "hashable x = True"

fun key_norm :: "json \<Rightarrow> json" where
  "key_norm (JBool b) = JNum (if b then 1 else 0)"
| "key_norm x = x"

fun set_item :: "(json \<times> json) list \<Rightarrow> json \<Rightarrow> json \<Rightarrow> (json \<times> json) list" where
  "set_item [] k v = [(k, v)]"
| "set_item ((k', v') # d) k v =
     (if key_norm k' = key_norm k then (k', v) # d else (k', v') # set_item d k v)"

fun update_element :: "json \<Rightarrow> error + json \<times> json" where
  "update_element (JList [a, b]) =
     (if hashable a then Inr (a, b) else Inl (Raise TypeError ''unhashable type''))"
| "update_element (JList xs) =
     Inl (Raise ValueError ''dictionary update sequence element has length other than 2'')"
| "update_element (JStr [a, b]) = Inr (JStr [a], JStr [b])"
| "update_element (JStr s) =
     Inl (Raise ValueError ''dictionary update sequence element has length other than 2'')"
| "update_element (JObj [(a, x), (b, y)]) = Inr (JStr a, JStr b)"
| "update_element (JObj d) =
     Inl (Raise ValueError ''dictionary update sequence element has length other than 2'')"
| "update_element (JDict [(a, x), (b, y)]) =
     (if hashable a then Inr (a, b) else Inl (Raise TypeError ''unhashable type''))"
| "update_element (JDict d) =
     Inl (Raise ValueError ''dictionary update sequence element has length other than 2'')"
| "update_element x =
     Inl (Raise TypeError ''cannot convert dictionary update sequence element to a sequence'')"

fun update_from_sequence :: "(json \<times> json) list \<Rightarrow> json list \<Rightarrow> error + (json \<times> json) list" where
  "update_from_sequence d [] = Inr d"
| "update_from_sequence d (x # xs) =
     (case update_element x of
        Inl e \<Rightarrow> Inl e
      | Inr (k, v) \<Rightarrow> update_from_sequence (set_item d k v) xs)"

text \<open>The dict as a value: \<open>JObj\<close> when every key is a string, \<open>JDict\<close> otherwise.\<close>

fun str_key :: "json \<times> json \<Rightarrow> (string \<times> json) option" where
  "str_key (JStr s, v) = Some (s, v)"
| "str_key (k, v) = None"

definition dict_value :: "(json \<times> json) list \<Rightarrow> json" where
  "dict_value kvs = (case those (map str_key kvs) of Some d \<Rightarrow> JObj d | None \<Rightarrow> JDict kvs)"

definition py_dict_update :: "dict \<Rightarrow> json \<Rightarrow> error + json" where
  "py_dict_update tpls x =
     (case x of
        JObj e \<Rightarrow> Inr (JObj (dict_update tpls e))
      | JDict e \<Rightarrow>
          Inr (dict_value (fold (\<lambda>(k, v) acc. set_item acc k v) e (map (\<lambda>(k, v). (JStr k, v)) tpls)))
      | JList xs \<Rightarrow>
          (case update_from_sequence (map (\<lambda>(k, v). (JStr k, v)) tpls) xs of
             Inl e \<Rightarrow> Inl e
           | Inr kvs \<Rightarrow> Inr (dict_value kvs))
      | JStr s \<Rightarrow>
          (case update_from_sequence (map (\<lambda>(k, v). (JStr k, v)) tpls) (map (\<lambda>c. JStr [c]) s) of
             Inl e \<Rightarrow> Inl e
           | Inr kvs \<Rightarrow> Inr (dict_value kvs))
      | _ \<Rightarrow> Inl (Raise TypeError ''object is not iterable''))"

text \<open>
  Lines 268-276, one entry of the repository list. Line 271 pops \<^verbatim>\<open>templates\<close> from the
  copy of the default entry; line 272 looks up \<^verbatim>\<open>tpls.update\<close>, which only a dict has,
  pops \<^verbatim>\<open>templates\<close> from the entry of the repository and updates; lines 274-276 overlay
  the entry and assign \<^verbatim>\<open>name\<close> and \<^verbatim>\<open>templates\<close>.
\<close>

definition parse_entry :: "json \<Rightarrow> dict \<Rightarrow> string \<Rightarrow> error + dict" where
  "parse_entry dflt repos k =
     (case py_pop dflt ''templates'' (JObj []) of
        Inl e \<Rightarrow> Inl e
      | Inr (JObj tpls0, v1) \<Rightarrow>
          (case map_of repos k of
             None \<Rightarrow> Inl (Raise KeyError k)
           | Some rk \<Rightarrow>
               (case py_pop rk ''templates'' (JObj []) of
                  Inl e \<Rightarrow> Inl e
                | Inr (rtpls, rk1) \<Rightarrow>
                    (case py_dict_update tpls0 rtpls of
                       Inl e \<Rightarrow> Inl e
                     | Inr tpls \<Rightarrow>
                         (let v2 = dict_update v1 rk1;
                              v3 = dict_set v2 ''name'' (JStr k)
                          in Inr (dict_set v3 ''templates'' tpls)))))
      | Inr _ \<Rightarrow> Inl (Raise AttributeError ''update''))"

text \<open>Lines 267-278, the loop over the sorted keys; \<^verbatim>\<open>res\<close> is the list returned.\<close>

fun parse_loop :: "json \<Rightarrow> dict \<Rightarrow> string list \<Rightarrow> error + dict list" where
  "parse_loop dflt repos [] = Inr []"
| "parse_loop dflt repos (k # ks) =
     (case parse_entry dflt repos k of
        Inl e \<Rightarrow> Inl e
      | Inr v \<Rightarrow>
          (case parse_loop dflt repos ks of
             Inl e \<Rightarrow> Inl e
           | Inr res \<Rightarrow> Inr (v # res)))"

text \<open>Lines 263-280: \<^verbatim>\<open>DEFAULT\<close> is taken out of the dict of the file, the other keys are
  visited in sorted order.\<close>

definition parse_repos :: "world \<Rightarrow> error + dict list" where
  "parse_repos w =
     (case load_json w REPOS_JSON of
        Inl e \<Rightarrow> Inl e
      | Inr repos0 \<Rightarrow>
          (case py_pop repos0 REPOS_DEFAULT_KW (JObj []) of
             Inl e \<Rightarrow> Inl e
           | Inr (dflt, repos) \<Rightarrow> parse_loop dflt repos (sort (map fst repos))))"

section \<open>A concrete environment\<close>

text \<open>
  The end-to-end scenario of the specification: \<^verbatim>\<open>repos.json\<close> lists the repository
  \<^verbatim>\<open>demo\<close> of fork \<^verbatim>\<open>acme\<close> with \<^verbatim>\<open>ref\<close> \<^verbatim>\<open>v1.2.0\<close> and \<^verbatim>\<open>ref_is_version\<close>; the
  instructions directory \<^verbatim>\<open>instructions/demo\<close> holds an \<^verbatim>\<open>fpm.json\<close> with a description
  only. The texts of the files are opaque to the script: only the parser reads them.
\<close>

definition no_such_file :: "string \<Rightarrow> error" where
  "no_such_file fn =
     Raise IOError (''[Errno 2] No such file or directory: '' @ [CHR 0x27] @ fn @ [CHR 0x27])"

definition demo_commit :: commit where
  "demo_commit = \<lparr>committed_date = 1500000000, hexsha = ''0123456789abcdef0123''\<rparr>"

definition demo_refs :: "gitref list" where
  "demo_refs =
     [\<lparr>r_name = ''master'', r_kind = Head, r_commit = demo_commit\<rparr>,
      \<lparr>r_name = ''origin/master'', r_kind = RemoteReference, r_commit = demo_commit\<rparr>,
      \<lparr>r_name = ''origin/v1.2.0'', r_kind = RemoteReference, r_commit = demo_commit\<rparr>,
      \<lparr>r_name = ''v1.2.0'', r_kind = TagReference, r_commit = demo_commit\<rparr>]"

definition demo_repo :: repo where
  "demo_repo =
     \<lparr>working_dir = ''/tmp/yoda-packages/demo'', refs = demo_refs,
      remote_url = Inr ''https://github.com/acme/demo'', head_commit = demo_commit\<rparr>"

definition demo_repos_json :: json where
  "demo_repos_json =
     JObj [(''DEFAULT'', JObj []),
           (''demo'', JObj [(''fork'', JStr ''acme''), (''ref'', JStr ''v1.2.0''),
                            (''ref_is_version'', JBool True)])]"

definition demo_fpm_json :: json where
  "demo_fpm_json = JObj [(''description'', JStr ''demo pkg'')]"

definition demo_open_file :: "string \<Rightarrow> error + string" where
  "demo_open_file fn =
     (if fn = ''repos.json'' then Inr ''repos''
      else if fn = ''/home/build/instructions/demo/fpm.json'' then Inr ''fpm''
      else if fn = ''broken.json'' then Inr ''{''
      else Inl (no_such_file fn))"

definition demo_json_loads :: "string \<Rightarrow> error + json" where
  "demo_json_loads s =
     (if s = ''repos'' then Inr demo_repos_json
      else if s = ''fpm'' then Inr demo_fpm_json
      else Inl (Raise JSONDecodeError
                  ''Expecting property name enclosed in double quotes: line 1 column 2 (char 1)''))"

text \<open>The url template, and any string without braces, which \<^verbatim>\<open>format\<close> returns as it is.\<close>

definition demo_str_format :: "string \<Rightarrow> dict \<Rightarrow> error + string" where
  "demo_str_format s td =
     (if s = GITHUB_GIT then
        (case (map_of td ''fork'', map_of td ''name'') of
           (Some (JStr f), Some (JStr n)) \<Rightarrow> Inr (''https://github.com/'' @ f @ ''/'' @ n)
         | _ \<Rightarrow> Inl (Raise KeyError ''fork''))
      else if CHR ''{'' \<notin> set s \<and> CHR ''}'' \<notin> set s then Inr s
      else Inl (Raise KeyError s))"

definition demo_world :: world where
  "demo_world =
     \<lparr>cwd = ''/home/build'',
      isdir = (\<lambda>p. p \<in> set [''/home/build/instructions/demo'']),
      isfile = (\<lambda>p. p \<in> set [''repos.json'', ''/home/build/instructions/demo/fpm.json'']),
      path_exists = (\<lambda>p. p \<in> set [''/tmp/yoda-packages/packages'']),
      open_file = demo_open_file,
      json_loads = demo_json_loads,
      rmtree = (\<lambda>p. None),
      makedirs = (\<lambda>p. None),
      open_repo = (\<lambda>p. Inl (Raise GitError p)),
      clone_from = (\<lambda>url p.
         if url = ''https://github.com/acme/demo'' \<and> p = ''/tmp/yoda-packages/demo''
         then Inr demo_repo else Inl (Raise GitError url)),
      checkout = (\<lambda>r ref. None),
      str_format = demo_str_format,
      check_output = (\<lambda>cmds. Inr [])\<rparr>"

text \<open>The entry that parse_repos builds for \<^verbatim>\<open>demo\<close>, the same entry without a \<^verbatim>\<open>ref\<close>, and
  with a \<^verbatim>\<open>ref\<close> that names no reference of the repository.\<close>

definition demo_entry :: dict where
  "demo_entry =
     [(''fork'', JStr ''acme''), (''ref'', JStr ''v1.2.0''), (''ref_is_version'', JBool True),
      (''name'', JStr ''demo''), (''templates'', JObj [])]"



text \<open>
  A repository list in which \<^verbatim>\<open>DEFAULT\<close> and the entry \<^verbatim>\<open>zeta\<close> set \<^verbatim>\<open>name\<close> themselves,
  and the entry \<^verbatim>\<open>mid\<close> gives its \<^verbatim>\<open>templates\<close> as a list of pairs.
\<close>

definition named_repos_json :: json where
  "named_repos_json =
     JObj [(''zeta'', JObj [(''name'', JStr ''mine''), (''templates'', JObj [(''a'', JStr ''1'')])]),
           (''DEFAULT'', JObj [(''name'', JStr ''default''), (''fork'', JStr ''acme'')]),
           (''mid'', JObj [(''templates'', JList [JList [JStr ''b'', JStr ''2'']])]),
           (''alpha'', JObj [])]"

definition named_world :: world where
  "named_world = demo_world\<lparr>json_loads := (\<lambda>s. Inr named_repos_json)\<rparr>"

text \<open>
  A repository that has a local head and a tag of the same name \<^verbatim>\<open>rel\<close>, pointing to
  different commits, and the entry that asks for \<^verbatim>\<open>rel\<close>.
\<close>

definition head_commit_rel :: commit where
  "head_commit_rel = \<lparr>committed_date = 1500000100, hexsha = ''aaaaaaaaaaaaaaaaaaaa''\<rparr>"

definition tag_commit_rel :: commit where
  "tag_commit_rel = \<lparr>committed_date = 1500000000, hexsha = ''bbbbbbbbbbbbbbbbbbbb''\<rparr>"

definition clash_repo :: repo where
  "clash_repo =
     \<lparr>working_dir = ''/tmp/yoda-packages/demo'',
      refs = [\<lparr>r_name = ''rel'', r_kind = Head, r_commit = head_commit_rel\<rparr>,
              \<lparr>r_name = ''origin/rel'', r_kind = RemoteReference, r_commit = head_commit_rel\<rparr>,
              \<lparr>r_name = ''rel'', r_kind = TagReference, r_commit = tag_commit_rel\<rparr>],
      remote_url = Inr ''https://github.com/acme/demo'', head_commit = head_commit_rel\<rparr>"

definition clash_entry :: dict where
  "clash_entry =
     [(''fork'', JStr ''acme''), (''ref'', JStr ''rel''), (''name'', JStr ''demo''),
      (''templates'', JObj [])]"

definition clash_world :: world where
  "clash_world = demo_world\<lparr>clone_from := (\<lambda>url p. Inr clash_repo)\<rparr>"

text \<open>The entry of \<^verbatim>\<open>demo\<close> with a \<^verbatim>\<open>ref\<close> but neither \<^verbatim>\<open>ref_is_version\<close> nor \<^verbatim>\<open>version\<close>.\<close>

definition demo_entry_plain :: dict where
  "demo_entry_plain =
     [(''fork'', JStr ''acme''), (''ref'', JStr ''v1.2.0''), (''name'', JStr ''demo''),
      (''templates'', JObj [])]"

section \<open>Properties of load_json\<close>

text \<open>What load_json does on its two error paths when the exception of the parser is a
  ValueError: the error of \<^verbatim>\<open>open\<close> is passed on, the error of the parser is wrapped.\<close>

lemma load_json_open_error: "open_file w fn = Inl e \<Longrightarrow> load_json w fn = Inl e"
  by (simp add: load_json_def)

lemma load_json_value_error:
  "open_file w fn = Inr f \<Longrightarrow> json_loads w f = Inl (Raise ValueError m) \<Longrightarrow>
   load_json w fn = Inl (Raise ValueError (''Failed to load json '' @ fn @ '': '' @ m))"
  by (simp add: load_json_def)

text \<open>
  C9. The file \<^verbatim>\<open>broken.json\<close> exists and its text \<^verbatim>\<open>{\<close> is not valid JSON: the parser
  raises JSONDecodeError. Line 67 calls that class with the message alone, the call
  raises TypeError, and the error that leaves load_json is not the load failure that
  line 67 was to build: its message contains neither the filename nor the parse error.
\<close>

theorem load_json_invalid_json_type_error:
  "open_file demo_world ''broken.json'' = Inr ''{'' \<and>
   json_loads demo_world ''{'' =
     Inl (Raise JSONDecodeError
            ''Expecting property name enclosed in double quotes: line 1 column 2 (char 1)'') \<and>
   load_json demo_world ''broken.json'' =
     Inl (Raise TypeError ''__init__() missing 2 required positional arguments: doc and pos'') \<and>
   \<not> is_load_failure ''broken.json''
       (Raise TypeError ''__init__() missing 2 required positional arguments: doc and pos'') \<and>
   \<not> sublist ''broken.json''
       ''__init__() missing 2 required positional arguments: doc and pos'' \<and>
   \<not> sublist ''Expecting property name enclosed in double quotes: line 1 column 2 (char 1)''
       ''__init__() missing 2 required positional arguments: doc and pos''"
  by code_simp

section \<open>Properties of parse_repos\<close>

lemma parse_entry_name:
  "parse_entry dflt repos k = Inr v \<Longrightarrow> map_of v ''name'' = Some (JStr k)"
  by (auto simp: parse_entry_def dict_set_def update_conv' Let_def
      split: sum.splits prod.splits json.splits option.splits)

lemma parse_loop_names:
  "parse_loop dflt repos ks = Inr res \<Longrightarrow>
   map (\<lambda>v. map_of v ''name'') res = map (\<lambda>k. Some (JStr k)) ks"
proof (induction ks arbitrary: res)
  case Nil
  then show ?case by simp
next
  case (Cons k ks)
  from Cons.prems obtain v vs where v: "parse_entry dflt repos k = Inr v"
    and vs: "parse_loop dflt repos ks = Inr vs" and res: "res = v # vs"
    by (auto split: sum.splits)
  from parse_entry_name [OF v] Cons.IH [OF vs] res show ?case by simp
qed

lemma py_pop_dict:
  "py_pop j k d = Inr (x, rest) \<Longrightarrow> \<exists>d0. j = JObj d0 \<and> rest = AList.delete k d0"
  by (cases j) (auto simp: dict_pop_def)

text \<open>
  C2. When parse_repos returns, the file holds a dict, and the entries returned are in
  the order of the sorted keys of that dict without \<^verbatim>\<open>DEFAULT\<close>: the \<^verbatim>\<open>name\<close> of each
  entry is the key it was built from, whatever \<^verbatim>\<open>name\<close> the default entry or the entry
  of the repository gave.
\<close>

theorem parse_repos_names:
  assumes "parse_repos w = Inr res"
  shows "\<exists>repos0 names.
           load_json w REPOS_JSON = Inr (JObj repos0) \<and>
           names = sort (map fst (AList.delete REPOS_DEFAULT_KW repos0)) \<and>
           sorted names \<and>
           map (\<lambda>v. map_of v ''name'') res = map (\<lambda>k. Some (JStr k)) names"
proof -
  from assms obtain j dflt repos where l: "load_json w REPOS_JSON = Inr j"
    and pp: "py_pop j REPOS_DEFAULT_KW (JObj []) = Inr (dflt, repos)"
    and pl: "parse_loop dflt repos (sort (map fst repos)) = Inr res"
    by (auto simp: parse_repos_def split: sum.splits)
  from py_pop_dict [OF pp] obtain repos0 where j: "j = JObj repos0"
    and repos: "repos = AList.delete REPOS_DEFAULT_KW repos0" by blast
  let ?names = "sort (map fst (AList.delete REPOS_DEFAULT_KW repos0))"
  from parse_loop_names [OF pl] repos
  have "map (\<lambda>v. map_of v ''name'') res = map (\<lambda>k. Some (JStr k)) ?names" by simp
  with l j show ?thesis by simp
qed

text \<open>
  A file in which \<^verbatim>\<open>DEFAULT\<close> sets \<^verbatim>\<open>name\<close> to \<^verbatim>\<open>default\<close>, the entry \<^verbatim>\<open>zeta\<close>, listed first,
  sets it to \<^verbatim>\<open>mine\<close>, and the entry \<^verbatim>\<open>mid\<close> has a list of pairs as \<^verbatim>\<open>templates\<close>: the
  entries come out as \<^verbatim>\<open>alpha\<close>, \<^verbatim>\<open>mid\<close> and \<^verbatim>\<open>zeta\<close>.
\<close>

theorem parse_repos_names_witness:
  "parse_repos named_world =
     Inr [[(''name'', JStr ''alpha''), (''fork'', JStr ''acme''), (''templates'', JObj [])],
          [(''name'', JStr ''mid''), (''fork'', JStr ''acme''),
           (''templates'', JObj [(''b'', JStr ''2'')])],
          [(''name'', JStr ''zeta''), (''fork'', JStr ''acme''),
           (''templates'', JObj [(''a'', JStr ''1'')])]] \<and>
   load_json named_world REPOS_JSON = Inr named_repos_json \<and>
   map (\<lambda>v. map_of v ''name'')
     [[(''name'', JStr ''alpha''), (''fork'', JStr ''acme''), (''templates'', JObj [])],
      [(''name'', JStr ''mid''), (''fork'', JStr ''acme''),
       (''templates'', JObj [(''b'', JStr ''2'')])],
      [(''name'', JStr ''zeta''), (''fork'', JStr ''acme''),
       (''templates'', JObj [(''a'', JStr ''1'')])]] =
     [Some (JStr ''alpha''), Some (JStr ''mid''), Some (JStr ''zeta'')]"
proof -
  have p: "parse_repos named_world =
     Inr [[(''name'', JStr ''alpha''), (''fork'', JStr ''acme''), (''templates'', JObj [])],
          [(''name'', JStr ''mid''), (''fork'', JStr ''acme''),
           (''templates'', JObj [(''b'', JStr ''2'')])],
          [(''name'', JStr ''zeta''), (''fork'', JStr ''acme''),
           (''templates'', JObj [(''a'', JStr ''1'')])]]"
    by code_simp
  have l: "load_json named_world REPOS_JSON = Inr named_repos_json"
    by code_simp
  have s: "sort (map fst (AList.delete REPOS_DEFAULT_KW
             [(''zeta'', JObj [(''name'', JStr ''mine''), (''templates'', JObj [(''a'', JStr ''1'')])]),
              (''DEFAULT'', JObj [(''name'', JStr ''default''), (''fork'', JStr ''acme'')]),
              (''mid'', JObj [(''templates'', JList [JList [JStr ''b'', JStr ''2'']])]),
              (''alpha'', JObj [])])) = [''alpha'', ''mid'', ''zeta'']"
    by code_simp
  from parse_repos_names [OF p] l s p show ?thesis
    by (auto simp: named_repos_json_def)
qed

section \<open>Properties of prep_repo\<close>

lemma origin_neq: "''origin/'' @ s \<noteq> s"
proof
  assume "''origin/'' @ s = s"
  then have "length (''origin/'' @ s) = length s" by (rule arg_cong)
  then show False by simp
qed

lemma filter_find_Some: "find P xs = Some t \<Longrightarrow> \<exists>ys. filter P xs = t # ys"
  by (induction xs) (auto split: if_splits)

lemma filter_find_None: "find P xs = None \<Longrightarrow> filter P xs = []"
  by (induction xs) (auto split: if_splits)

text \<open>
  The order of the two passes. For an entry whose \<^verbatim>\<open>ref\<close> is the string \<open>s\<close>: when
  \<^verbatim>\<open>repo.refs\<close> has a reference named exactly \<open>s\<close>, resolution returns the first such
  reference, of whatever kind, with the label \<^verbatim>\<open>tag\<close>, and the result is the same when
  every reference named \<^verbatim>\<open>origin/s\<close> is taken out of the repository. Only when no
  reference is named \<open>s\<close> is the first reference named \<^verbatim>\<open>origin/s\<close> returned, with the
  label \<^verbatim>\<open>branch\<close>.
\<close>

lemma resolve_ref_first_match:
  assumes "map_of repo_d ''ref'' = Some (JStr s)"
  shows "(find (\<lambda>r. r_name r = s) (refs rp) = Some t \<longrightarrow>
            resolve_ref rp repo_d =
              Inr (Some (''tag'', t,
                 if py_truthy (dict_get repo_d ''ref_is_version'' (JBool False))
                 then JStr (strip_v s) else JNull)) \<and>
            resolve_ref (rp\<lparr>refs := filter (\<lambda>r. r_name r \<noteq> ''origin/'' @ s) (refs rp)\<rparr>) repo_d =
              resolve_ref rp repo_d) \<and>
         (find (\<lambda>r. r_name r = s) (refs rp) = None \<and>
          find (\<lambda>r. r_name r = ''origin/'' @ s) (refs rp) = Some b \<longrightarrow>
            resolve_ref rp repo_d =
              Inr (Some (''branch'', b,
                 if py_truthy (dict_get repo_d ''ref_is_version'' (JBool False))
                 then JStr (strip_v s) else JNull)))"
proof -
  let ?ver = "if py_truthy (dict_get repo_d ''ref_is_version'' (JBool False))
              then JStr (strip_v s) else JNull"
  let ?rp' = "rp\<lparr>refs := filter (\<lambda>r. r_name r \<noteq> ''origin/'' @ s) (refs rp)\<rparr>"
  have tag: "resolve_ref rp repo_d = Inr (Some (''tag'', t, ?ver)) \<and>
             resolve_ref ?rp' repo_d = resolve_ref rp repo_d"
    if f: "find (\<lambda>r. r_name r = s) (refs rp) = Some t"
  proof -
    from filter_find_Some [OF f]
    obtain ys where ys: "filter (\<lambda>r. r_name r = s) (refs rp) = t # ys" ..
    have same: "filter (\<lambda>r. r_name r = s) (refs ?rp') = filter (\<lambda>r. r_name r = s) (refs rp)"
      using origin_neq [of s] by (auto simp: filter_filter intro: filter_cong)
    have r1: "resolve_ref rp repo_d = Inr (Some (''tag'', t, ?ver))"
      using assms ys by (simp add: resolve_ref_def)
    have r2: "resolve_ref ?rp' repo_d = Inr (Some (''tag'', t, ?ver))"
      using assms ys same by (simp add: resolve_ref_def)
    from r1 r2 show ?thesis by simp
  qed
  have branch: "resolve_ref rp repo_d = Inr (Some (''branch'', b, ?ver))"
    if n: "find (\<lambda>r. r_name r = s) (refs rp) = None"
      and f: "find (\<lambda>r. r_name r = ''origin/'' @ s) (refs rp) = Some b"
  proof -
    from n have e: "filter (\<lambda>r. r_name r = s) (refs rp) = []"
      by (rule filter_find_None)
    from filter_find_Some [OF f]
    obtain ys where ys: "filter (\<lambda>r. r_name r = ''origin/'' @ s) (refs rp) = b # ys" ..
    show ?thesis using assms e ys by (simp add: resolve_ref_def)
  qed
  from tag branch show ?thesis by blast
qed

text \<open>
  C3. The first pass compares names only and does not look at the kind of the
  reference. The repository has a local head \<^verbatim>\<open>rel\<close>, a remote branch \<^verbatim>\<open>origin/rel\<close> and a
  tag \<^verbatim>\<open>rel\<close>; \<^verbatim>\<open>repo.refs\<close> lists the head before the tag. For the \<^verbatim>\<open>ref\<close> \<^verbatim>\<open>rel\<close> the
  reference selected under the label \<^verbatim>\<open>tag\<close> is the head, a branch, and prep_repo checks
  out the commit of the head, not the commit of the tag: the tag is not selected.
\<close>

theorem resolve_ref_head_shadows_tag:
  "map_of clash_entry ''ref'' = Some (JStr ''rel'') \<and>
   \<lparr>r_name = ''rel'', r_kind = TagReference, r_commit = tag_commit_rel\<rparr> \<in> set (refs clash_repo) \<and>
   \<lparr>r_name = ''origin/rel'', r_kind = RemoteReference, r_commit = head_commit_rel\<rparr>
     \<in> set (refs clash_repo) \<and>
   resolve_ref clash_repo clash_entry =
     Inr (Some (''tag'', \<lparr>r_name = ''rel'', r_kind = Head, r_commit = head_commit_rel\<rparr>, JNull)) \<and>
   prep_repo clash_world clash_entry False =
     Inr (clash_repo\<lparr>head_commit := head_commit_rel\<rparr>, JNull) \<and>
   head_commit_rel \<noteq> tag_commit_rel"
  by code_simp


text \<open>
  C7. When reference resolution succeeds, the configured \<^verbatim>\<open>ref\<close> is a string and the
  derived version is that name without one leading \<^verbatim>\<open>v\<close> when \<^verbatim>\<open>ref_is_version\<close> is set
  (true in a condition), and unset (\<^verbatim>\<open>None\<close>) otherwise. Stripping removes exactly the
  first character of a name that begins with \<^verbatim>\<open>v\<close> and leaves any other name as it is:
  \<^verbatim>\<open>v1.2.0\<close> gives \<^verbatim>\<open>1.2.0\<close>.
\<close>

theorem derived_version:
  "(resolve_ref rp repo_d = Inr (Some (ref_type, ref, ref_version)) \<longrightarrow>
      (\<exists>s. map_of repo_d ''ref'' = Some (JStr s) \<and>
           ref_version =
             (if py_truthy (dict_get repo_d ''ref_is_version'' (JBool False))
              then JStr (strip_v s) else JNull))) \<and>
   strip_v (CHR ''v'' # t) = t \<and>
   (\<not> prefix ''v'' u \<longrightarrow> strip_v u = u) \<and>
   strip_v ''v1.2.0'' = ''1.2.0''"
proof -
  have a: "\<exists>s. map_of repo_d ''ref'' = Some (JStr s) \<and>
           ref_version =
             (if py_truthy (dict_get repo_d ''ref_is_version'' (JBool False))
              then JStr (strip_v s) else JNull)"
    if r: "resolve_ref rp repo_d = Inr (Some (ref_type, ref, ref_version))"
  proof (cases "map_of repo_d ''ref''")
    case None
    with r show ?thesis by (simp add: resolve_ref_def)
  next
    case (Some ref_name)
    show ?thesis
    proof (cases ref_name)
      case (JStr s)
      with r Some show ?thesis
        by (auto simp: resolve_ref_def split: list.splits if_splits)
    qed (use r Some in \<open>auto simp: resolve_ref_def split: list.splits if_splits\<close>)
  qed
  show ?thesis using a by (simp add: strip_v_def)
qed

text \<open>The scenario of the specification: \<^verbatim>\<open>ref\<close> \<^verbatim>\<open>v1.2.0\<close> with \<^verbatim>\<open>ref_is_version\<close>.\<close>

theorem derived_version_witness:
  "resolve_ref demo_repo demo_entry =
     Inr (Some (''tag'', \<lparr>r_name = ''v1.2.0'', r_kind = TagReference, r_commit = demo_commit\<rparr>, JStr ''1.2.0'')) \<and>
   map_of demo_entry ''ref'' = Some (JStr ''v1.2.0'') \<and>
   py_truthy (dict_get demo_entry ''ref_is_version'' (JBool False)) \<and>
   JStr ''1.2.0'' = JStr (strip_v ''v1.2.0'') \<and>
   \<not> prefix ''v'' ''1.2.0'' \<and> strip_v ''1.2.0'' = ''1.2.0''"
proof -
  have r: "resolve_ref demo_repo demo_entry =
     Inr (Some (''tag'', \<lparr>r_name = ''v1.2.0'', r_kind = TagReference, r_commit = demo_commit\<rparr>, JStr ''1.2.0''))"
    by code_simp
  have m: "map_of demo_entry ''ref'' = Some (JStr ''v1.2.0'')"
    by (simp add: demo_entry_def)
  have v: "py_truthy (dict_get demo_entry ''ref_is_version'' (JBool False))"
    by (simp add: demo_entry_def dict_get_def)
  have n: "\<not> prefix ''v'' ''1.2.0''" by simp
  from derived_version [of demo_repo demo_entry "''tag''"
      "\<lparr>r_name = ''v1.2.0'', r_kind = TagReference, r_commit = demo_commit\<rparr>" "JStr ''1.2.0''" "[]" "''1.2.0''"]
    r m v n
  show ?thesis by simp
qed



section \<open>Properties of gather_instructions\<close>

lemma add_default_excludes_prefix: "prefix e (add_default_excludes defs e)"
  unfolding add_default_excludes_def
proof (induction defs arbitrary: e)
  case Nil
  show ?case by simp
next
  case (Cons d defs)
  show ?case
  proof (cases "d \<in> set e")
    case True
    with Cons [of e] show ?thesis by simp
  next
    case False
    have "prefix e (e @ [d])" by simp
    also from Cons [of "e @ [d]"]
    have "prefix (e @ [d]) (fold (\<lambda>x acc. if x \<notin> set acc then acc @ [x] else acc) defs (e @ [d]))" .
    finally show ?thesis using False by simp
  qed
qed

lemma add_default_excludes_present:
  "set defs \<subseteq> set e \<Longrightarrow> add_default_excludes defs e = e"
  unfolding add_default_excludes_def by (induction defs) auto

lemma add_default_excludes_contains: "set defs \<subseteq> set (add_default_excludes defs e)"
proof (induction defs arbitrary: e)
  case Nil
  show ?case by simp
next
  case (Cons d defs)
  let ?e' = "if d \<notin> set e then e @ [d] else e"
  have step: "add_default_excludes (d # defs) e = add_default_excludes defs ?e'"
    by (simp add: add_default_excludes_def)
  have "d \<in> set ?e'" by simp
  moreover have "set ?e' \<subseteq> set (add_default_excludes defs ?e')"
    using add_default_excludes_prefix [of ?e' defs] by (rule set_mono_prefix)
  ultimately have "d \<in> set (add_default_excludes defs ?e')" by blast
  with Cons [of ?e'] step show ?case by simp
qed

lemma add_default_excludes_idem:
  "add_default_excludes defs (add_default_excludes defs e) = add_default_excludes defs e"
  by (rule add_default_excludes_present) (rule add_default_excludes_contains)

text \<open>
  C6. Normalizing the list that normalization produced returns it unchanged, on the
  value of \<^verbatim>\<open>exclude\<close> and on the whole dict, and for any list of default patterns. The
  result is the given list (a scalar wrapped into a one-element list) followed by the
  default patterns that were not in it: the existing order is kept and a pattern that is
  present is not appended again.
\<close>

theorem exclude_normalization_idempotent:
  "normalize_exclude (JList (normalize_exclude excl)) = normalize_exclude excl \<and>
   insert_default_excludes (insert_default_excludes fpm) = insert_default_excludes fpm \<and>
   add_default_excludes defs (add_default_excludes defs e) = add_default_excludes defs e \<and>
   normalize_exclude excl =
     as_list excl @ filter (\<lambda>d. d \<notin> set (as_list excl)) EXCLUDE_DEFAULT \<and>
   normalize_exclude (JStr ''*.pyc'') = [JStr ''*.pyc'', JStr ''*/.git*''] \<and>
   normalize_exclude (JList [JStr ''*/.git*'', JStr ''*.pyc'']) =
     [JStr ''*/.git*'', JStr ''*.pyc'']"
proof -
  have a: "normalize_exclude (JList (normalize_exclude excl)) = normalize_exclude excl" for excl
    by (simp add: normalize_exclude_def add_default_excludes_idem)
  have b: "insert_default_excludes (insert_default_excludes fpm) = insert_default_excludes fpm"
    by (simp add: insert_default_excludes_def dict_set_def dict_get_def update_conv' a)
  have c: "normalize_exclude excl =
     as_list excl @ filter (\<lambda>d. d \<notin> set (as_list excl)) EXCLUDE_DEFAULT"
    by (simp add: normalize_exclude_def add_default_excludes_def EXCLUDE_DEFAULT_def)
  have d: "normalize_exclude (JStr ''*.pyc'') = [JStr ''*.pyc'', JStr ''*/.git*'']"
    by (simp add: normalize_exclude_def add_default_excludes_def EXCLUDE_DEFAULT_def)
  have e: "normalize_exclude (JList [JStr ''*/.git*'', JStr ''*.pyc'']) =
     [JStr ''*/.git*'', JStr ''*.pyc'']"
    by (simp add: normalize_exclude_def add_default_excludes_def EXCLUDE_DEFAULT_def)
  from a b c d e add_default_excludes_idem show ?thesis by blast
qed

text \<open>
  C5. In the concrete environment neither \<^verbatim>\<open>packaging\<close> in the working copy nor
  \<^verbatim>\<open>instructions/other\<close> exists. No directory is selected, \<^verbatim>\<open>inst\<close> stays unassigned, and
  gather_instructions fails at line 139 with UnboundLocalError: the
  \<^verbatim>\<open>raise Exception("No instructions path found")\<close> of line 140 is not reached, so the
  error is not the one the specification names InstructionsNotFound. \<^verbatim>\<open>fpm.json\<close> is not
  loaded.
\<close>

theorem gather_instructions_without_directory:
  "isdir demo_world (path_join (working_dir demo_repo) ''packaging'') = False \<and>
   isdir demo_world (path_join (path_join (cwd demo_world) ''instructions'') ''other'') = False \<and>
   select_inst demo_world ''other'' demo_repo = None \<and>
   gather_instructions demo_world ''other'' demo_repo (JStr ''1.0'') =
     Inl (Raise UnboundLocalError ''inst'') \<and>
   Raise UnboundLocalError ''inst'' \<noteq> InstructionsNotFound"
  by code_simp

lemma map_of_setdefault_other:
  "k \<noteq> k' \<Longrightarrow> map_of (snd (dict_setdefault d k' v)) k = map_of d k"
  by (simp add: dict_setdefault_def dict_set_def update_conv' split: option.splits)

lemma map_of_fold_scripts:
  "k \<notin> set names \<Longrightarrow>
   map_of (fold (\<lambda>opname acc.
                   (let script = path_join inst opname
                    in if isfile w script then dict_set acc opname (JStr script) else acc))
                names fpm) k = map_of fpm k"
  by (induction names arbitrary: fpm) (simp_all add: Let_def dict_set_def update_conv')

lemma map_of_add_scripts:
  "k \<notin> set script_names \<Longrightarrow> map_of (add_scripts w inst fpm) k = map_of fpm k"
  unfolding add_scripts_def by (rule map_of_fold_scripts)

lemma version_no_script: "''version'' \<notin> set script_names"
  by (simp add: script_names_def)

lemma map_of_set_defaults_version:
  "map_of (set_defaults name rp url fpm) ''version'' = map_of fpm ''version''"
  by (simp add: set_defaults_def Let_def map_of_setdefault_other)

lemma map_of_insert_default_excludes_version:
  "map_of (insert_default_excludes fpm) ''version'' = map_of fpm ''version''"
  by (simp add: insert_default_excludes_def dict_set_def update_conv')

lemma select_inst_isdir: "select_inst w name rp = Some inst \<Longrightarrow> isdir w inst"
  by (auto simp: select_inst_def Let_def split: if_splits)

lemma setdefault_version:
  "dict_setdefault d ''version'' v = (got, d') \<Longrightarrow>
   got = dict_get d ''version'' v \<and> map_of d' ''version'' = Some got"
  by (auto simp: dict_setdefault_def dict_get_def dict_set_def update_conv' split: option.splits)

lemma gather_instructions_version:
  assumes "select_inst w name rp = Some inst"
    and "isfile w (path_join inst FPM_JSON)"
    and "load_json w (path_join inst FPM_JSON) = Inr (JObj fpm0)"
    and "find (\<lambda>k. length k = 1) (map fst fpm0) = None"
    and "remote_url rp = Inr url"
  shows "if dict_get fpm0 ''version'' version = JNull
         then gather_instructions w name rp version = Inl (MissingVersion name)
         else \<exists>fpm. gather_instructions w name rp version = Inr fpm \<and>
                map_of fpm ''version'' = Some (dict_get fpm0 ''version'' version)"
proof -
  let ?fpm3 = "insert_default_excludes (set_defaults name rp url (add_scripts w inst fpm0))"
  obtain got fpm4 where sd: "dict_setdefault ?fpm3 ''version'' version = (got, fpm4)"
    by (cases "dict_setdefault ?fpm3 ''version'' version")
  have same: "map_of ?fpm3 ''version'' = map_of fpm0 ''version''"
    by (simp add: map_of_insert_default_excludes_version map_of_set_defaults_version
        map_of_add_scripts version_no_script)
  from setdefault_version [OF sd] same
  have got: "got = dict_get fpm0 ''version'' version"
    and v4: "map_of fpm4 ''version'' = Some got"
    by (simp_all add: dict_get_def)
  have g: "gather_instructions w name rp version =
     (if got = JNull then Inl (Raise PyException (''No version for '' @ name)) else Inr fpm4)"
    using assms select_inst_isdir [OF assms(1)] sd
    by (simp add: gather_instructions_def Let_def)
  show ?thesis using g got v4 by (simp add: MissingVersion_def)
qed

lemma prep_repo_version:
  assumes "prep_repo w repo_d wipe = Inr (rp, rversion)"
  shows "\<exists>rp0 ref_type ref derived.
           get_repo w repo_d wipe = Inr rp0 \<and>
           resolve_ref rp0 repo_d = Inr (Some (ref_type, ref, derived)) \<and>
           rversion = dict_get repo_d ''version'' derived"
  using assms
  by (auto simp: prep_repo_def split: sum.splits option.splits)

text \<open>
  C1. For an entry that prep_repo has prepared, and instructions whose \<^verbatim>\<open>fpm.json\<close> loads
  as the dict \<open>fpm0\<close> without single-letter keys: the version that line 178 obtains is
  the \<^verbatim>\<open>version\<close> of \<^verbatim>\<open>fpm.json\<close> when that key is present, else the \<^verbatim>\<open>version\<close> of the
  entry when that key is present, else the version derived from the reference. When that
  value is \<^verbatim>\<open>None\<close>, as it is when none of the three is present, gather_instructions fails
  with the error for a missing version and returns no dict; otherwise it returns a dict
  whose \<^verbatim>\<open>version\<close> is that value.
\<close>

theorem version_precedence:
  assumes "prep_repo w repo_d wipe = Inr (rp, rversion)"
    and "select_inst w' name rp = Some inst"
    and "isfile w' (path_join inst FPM_JSON)"
    and "load_json w' (path_join inst FPM_JSON) = Inr (JObj fpm0)"
    and "find (\<lambda>k. length k = 1) (map fst fpm0) = None"
    and "remote_url rp = Inr url"
  shows "\<exists>rp0 ref_type ref derived.
           get_repo w repo_d wipe = Inr rp0 \<and>
           resolve_ref rp0 repo_d = Inr (Some (ref_type, ref, derived)) \<and>
           (if dict_get fpm0 ''version'' (dict_get repo_d ''version'' derived) = JNull
            then gather_instructions w' name rp rversion = Inl (MissingVersion name)
            else \<exists>fpm. gather_instructions w' name rp rversion = Inr fpm \<and>
                   map_of fpm ''version'' =
                     Some (dict_get fpm0 ''version'' (dict_get repo_d ''version'' derived))) \<and>
           (map_of fpm0 ''version'' = None \<and> map_of repo_d ''version'' = None \<and> derived = JNull
              \<longrightarrow> gather_instructions w' name rp rversion = Inl (MissingVersion name))"
proof -
  from prep_repo_version [OF assms(1)]
  obtain rp0 ref_type ref derived where g: "get_repo w repo_d wipe = Inr rp0"
    and r: "resolve_ref rp0 repo_d = Inr (Some (ref_type, ref, derived))"
    and v: "rversion = dict_get repo_d ''version'' derived"
    by blast
  let ?expected = "dict_get fpm0 ''version'' (dict_get repo_d ''version'' derived)"
  have main: "if ?expected = JNull
     then gather_instructions w' name rp rversion = Inl (MissingVersion name)
     else \<exists>fpm. gather_instructions w' name rp rversion = Inr fpm \<and>
            map_of fpm ''version'' = Some ?expected"
    unfolding v
    using gather_instructions_version [OF assms(2-6), of "dict_get repo_d ''version'' derived"] .
  have none: "gather_instructions w' name rp rversion = Inl (MissingVersion name)"
    if "map_of fpm0 ''version'' = None \<and> map_of repo_d ''version'' = None \<and> derived = JNull"
  proof -
    from that have "?expected = JNull" by (simp add: dict_get_def)
    with main show ?thesis by simp
  qed
  from g r main none show ?thesis by blast
qed

text \<open>
  The scenario of the specification: \<^verbatim>\<open>fpm.json\<close> and the entry have no \<^verbatim>\<open>version\<close>, the
  reference \<^verbatim>\<open>v1.2.0\<close> gives \<^verbatim>\<open>1.2.0\<close>, and the dict returned has \<^verbatim>\<open>"version": "1.2.0"\<close>.
  The same entry without \<^verbatim>\<open>ref_is_version\<close> has none of the three versions, and
  gather_instructions fails.
\<close>

theorem version_precedence_witness:
  "prep_repo demo_world demo_entry False = Inr (demo_repo, JStr ''1.2.0'') \<and>
   prep_repo demo_world demo_entry_plain False = Inr (demo_repo, JNull) \<and>
   select_inst demo_world ''demo'' demo_repo = Some ''/home/build/instructions/demo'' \<and>
   isfile demo_world (path_join ''/home/build/instructions/demo'' FPM_JSON) \<and>
   load_json demo_world (path_join ''/home/build/instructions/demo'' FPM_JSON) =
     Inr (JObj [(''description'', JStr ''demo pkg'')]) \<and>
   find (\<lambda>k. length k = 1) (map fst [(''description'', JStr ''demo pkg'')]) = None \<and>
   remote_url demo_repo = Inr ''https://github.com/acme/demo'' \<and>
   (\<exists>fpm. gather_instructions demo_world ''demo'' demo_repo (JStr ''1.2.0'') = Inr fpm \<and>
          map_of fpm ''version'' = Some (JStr ''1.2.0'')) \<and>
   map_of [(''description'', JStr ''demo pkg'')] ''version'' = None \<and>
   map_of demo_entry_plain ''version'' = None \<and>
   gather_instructions demo_world ''demo'' demo_repo JNull = Inl (MissingVersion ''demo'')"
proof -
  have p: "prep_repo demo_world demo_entry False = Inr (demo_repo, JStr ''1.2.0'')"
    by code_simp
  have p': "prep_repo demo_world demo_entry_plain False = Inr (demo_repo, JNull)"
    by code_simp
  have s: "select_inst demo_world ''demo'' demo_repo = Some ''/home/build/instructions/demo''"
    by code_simp
  have f: "isfile demo_world (path_join ''/home/build/instructions/demo'' FPM_JSON)"
    by code_simp
  have l: "load_json demo_world (path_join ''/home/build/instructions/demo'' FPM_JSON) =
     Inr (JObj [(''description'', JStr ''demo pkg'')])"
    by code_simp
  have n: "find (\<lambda>k. length k = 1) (map fst [(''description'', JStr ''demo pkg'')]) = None"
    by simp
  have u: "remote_url demo_repo = Inr ''https://github.com/acme/demo''"
    by (simp add: demo_repo_def)
  have g: "get_repo demo_world demo_entry False = Inr demo_repo"
    by code_simp
  have g': "get_repo demo_world demo_entry_plain False = Inr demo_repo"
    by code_simp
  have r: "resolve_ref demo_repo demo_entry =
     Inr (Some (''tag'', \<lparr>r_name = ''v1.2.0'', r_kind = TagReference, r_commit = demo_commit\<rparr>, JStr ''1.2.0''))"
    by code_simp
  have r': "resolve_ref demo_repo demo_entry_plain =
     Inr (Some (''tag'', \<lparr>r_name = ''v1.2.0'', r_kind = TagReference, r_commit = demo_commit\<rparr>, JNull))"
    by code_simp
  have e: "dict_get [(''description'', JStr ''demo pkg'')] ''version''
             (dict_get demo_entry ''version'' (JStr ''1.2.0'')) = JStr ''1.2.0''"
    by (simp add: dict_get_def demo_entry_def)
  have m0: "map_of [(''description'', JStr ''demo pkg'')] ''version'' = None"
    by simp
  have m1: "map_of demo_entry_plain ''version'' = None"
    by (simp add: demo_entry_plain_def)
  from version_precedence [OF p s f l n u] g r e
  have a: "\<exists>fpm. gather_instructions demo_world ''demo'' demo_repo (JStr ''1.2.0'') = Inr fpm \<and>
          map_of fpm ''version'' = Some (JStr ''1.2.0'')"
    by auto
  from version_precedence [OF p' s f l n u] g' r' m0 m1
  have b: "gather_instructions demo_world ''demo'' demo_repo JNull = Inl (MissingVersion ''demo'')"
    by auto
  from p p' s f l n u a m0 m1 b show ?thesis by blast
qed

section \<open>Properties of run_fpm\<close>

text \<open>
  C8. A boolean element that is true appends exactly the bare flag \<^verbatim>\<open>--<key>\<close> and
  leaves the positional arguments alone; a boolean element that is false changes
  nothing. For the dict \<^verbatim>\<open>{"force": true}\<close> the command is the base command followed by
  \<^verbatim>\<open>--force\<close>; for \<^verbatim>\<open>{"force": false}\<close> it is the base command alone.
\<close>

theorem boolean_flags:
  "add_elem w td k (cmds, args) (JBool True) = Inr (cmds @ [''--'' @ k], args) \<and>
   add_elem w td k (cmds, args) (JBool False) = Inr (cmds, args) \<and>
   add_options w td (cmds, args) [(k, JBool True)] = Inr (cmds @ [''--'' @ k], args) \<and>
   add_options w td (cmds, args) [(k, JBool False)] = Inr (cmds, args) \<and>
   fpm_command demo_world [(''force'', JBool True)] [] =
     Inr (base_cmds ''/tmp/yoda-packages/packages'' @ [''--force'']) \<and>
   fpm_command demo_world [(''force'', JBool False)] [] =
     Inr (base_cmds ''/tmp/yoda-packages/packages'')"
proof -
  have a: "fpm_command demo_world [(''force'', JBool True)] [] =
     Inr (base_cmds ''/tmp/yoda-packages/packages'' @ [''--force''])"
    by code_simp
  have b: "fpm_command demo_world [(''force'', JBool False)] [] =
     Inr (base_cmds ''/tmp/yoda-packages/packages'')"
    by code_simp
  show ?thesis using a b by simp
qed

lemma add_elem_unformattable:
  "\<not> is_flag_or_text x \<Longrightarrow> add_elem w td k acc x = Inl (Raise AttributeError ''format'')"
  by (cases acc; cases x) simp_all

lemma add_elems_unformattable:
  "x \<in> set xs \<Longrightarrow> \<not> is_flag_or_text x \<Longrightarrow> \<exists>e. add_elems w td k acc xs = Inl e"
proof (induction xs arbitrary: acc)
  case Nil
  then show ?case by simp
next
  case (Cons y ys)
  show ?case
  proof (cases "add_elem w td k acc y")
    case (Inl e)
    then show ?thesis by simp
  next
    case (Inr acc')
    with Cons.prems have "x \<noteq> y"
      using add_elem_unformattable [of x w td k acc] by auto
    with Cons.prems have "x \<in> set ys" by simp
    from Cons.IH [OF this Cons.prems(2), of acc'] Inr show ?thesis by simp
  qed
qed

lemma add_options_unformattable:
  "(k, v) \<in> set items \<Longrightarrow> x \<in> set (as_list v) \<Longrightarrow> \<not> is_flag_or_text x \<Longrightarrow>
   \<exists>e. add_options w td acc items = Inl e"
proof (induction items arbitrary: acc)
  case Nil
  then show ?case by simp
next
  case (Cons item items)
  obtain k0 v0 where item: "item = (k0, v0)" by (cases item)
  show ?case
  proof (cases "add_elems w td k0 acc (as_list v0)")
    case (Inl e)
    with item show ?thesis by simp
  next
    case (Inr acc')
    have "(k, v) \<noteq> (k0, v0)"
    proof
      assume "(k, v) = (k0, v0)"
      with Cons.prems(2,3) Inr add_elems_unformattable [of x "as_list v0" w td k0 acc]
      show False by auto
    qed
    with Cons.prems(1) item have "(k, v) \<in> set items" by auto
    from Cons.IH [OF this Cons.prems(2,3), of acc'] Inr item show ?thesis by simp
  qed
qed

lemma update_keeps_other:
  "(k, v) \<in> set al \<Longrightarrow> k \<noteq> k1 \<Longrightarrow> (k, v) \<in> set (AList.update k1 v1 al)"
  by (induction al) auto

lemma update_has_entry: "(k, v) \<in> set (AList.update k v al)"
  by (induction al) auto

lemma rename_key_keys:
  "fst ` set (rename_key k0 d) =
     (if k0 \<in> fst ` set d then insert (DEFAULT_PKG @ ''-'' @ k0) (fst ` set d - {k0})
      else fst ` set d)"
proof (cases "map_of d k0")
  case None
  then have "k0 \<notin> fst ` set d" by (simp add: map_of_eq_None_iff)
  with None show ?thesis by (simp add: rename_key_def)
next
  case (Some v0)
  then have "(k0, v0) \<in> set d" by (rule map_of_SomeD)
  then have in_d: "k0 \<in> fst ` set d" by force
  have "set (map fst (AList.update (DEFAULT_PKG @ ''-'' @ k0) v0 (AList.delete k0 d))) =
        insert (DEFAULT_PKG @ ''-'' @ k0) (fst ` set d - {k0})"
    by (auto simp: update_keys delete_keys)
  with Some in_d show ?thesis by (simp add: rename_key_def dict_set_def)
qed

lemma rename_key_distinct: "distinct (map fst d) \<Longrightarrow> distinct (map fst (rename_key k0 d))"
  by (simp add: rename_key_def dict_set_def distinct_update distinct_delete split: option.splits)

lemma rename_key_keeps:
  assumes "distinct (map fst d)" and "(k, v) \<in> set d"
    and "\<not> (k = DEFAULT_PKG @ ''-'' @ k0 \<and> k0 \<in> fst ` set d)"
  shows "(if k = k0 then DEFAULT_PKG @ ''-'' @ k0 else k, v) \<in> set (rename_key k0 d)"
proof (cases "map_of d k0")
  case None
  then have "k0 \<notin> fst ` set d" by (simp add: map_of_eq_None_iff)
  with assms(2) have "k \<noteq> k0" by force
  with None assms(2) show ?thesis by (simp add: rename_key_def)
next
  case (Some v0)
  then have "(k0, v0) \<in> set d" by (rule map_of_SomeD)
  then have in_d: "k0 \<in> fst ` set d" by force
  show ?thesis
  proof (cases "k = k0")
    case True
    with assms(1,2) Some have "v = v0" by simp
    with True Some show ?thesis by (simp add: rename_key_def dict_set_def update_has_entry)
  next
    case False
    with assms(2) have "(k, v) \<in> set (AList.delete k0 d)" by (auto simp: AList.delete_eq)
    moreover from assms(3) in_d have "k \<noteq> DEFAULT_PKG @ ''-'' @ k0" by simp
    ultimately show ?thesis
      using False Some by (simp add: rename_key_def dict_set_def update_keeps_other)
  qed
qed

lemma rename_generic_keeps:
  assumes "distinct (map fst fpm)" and "(k, v) \<in> set fpm"
    and "\<not> (k = ''rpm-user'' \<and> ''user'' \<in> fst ` set fpm)"
    and "\<not> (k = ''rpm-group'' \<and> ''group'' \<in> fst ` set fpm)"
  shows "\<exists>k'. (k', v) \<in> set (rename_generic fpm)"
proof -
  let ?d1 = "rename_key ''user'' fpm"
  let ?k1 = "if k = ''user'' then DEFAULT_PKG @ ''-'' @ ''user'' else k"
  from assms(3) have "\<not> (k = DEFAULT_PKG @ ''-'' @ ''user'' \<and> ''user'' \<in> fst ` set fpm)"
    by (simp add: DEFAULT_PKG_def)
  from rename_key_keeps [OF assms(1,2) this] have one: "(?k1, v) \<in> set ?d1" .
  have d1: "distinct (map fst ?d1)" using assms(1) by (rule rename_key_distinct)
  have group: "''group'' \<in> fst ` set ?d1 \<longleftrightarrow> ''group'' \<in> fst ` set fpm"
    by (simp add: rename_key_keys DEFAULT_PKG_def)
  have "\<not> (?k1 = DEFAULT_PKG @ ''-'' @ ''group'' \<and> ''group'' \<in> fst ` set ?d1)"
    using assms(4) group by (simp add: DEFAULT_PKG_def)
  from rename_key_keeps [OF d1 one this] show ?thesis
    by (auto simp: rename_generic_def)
qed

text \<open>
  C10, as amended. When the dict holds, under a key that the renaming of \<^verbatim>\<open>user\<close> and
  \<^verbatim>\<open>group\<close> does not overwrite, a value with an element that is neither a boolean nor a
  string, run_fpm fails and no command is executed.
\<close>

theorem run_fpm_unformattable:
  assumes "distinct (map fst fpm)" and "(k, v) \<in> set fpm"
    and "x \<in> set (as_list v)" and "\<not> is_flag_or_text x"
    and "\<not> (k = ''rpm-user'' \<and> ''user'' \<in> fst ` set fpm)"
    and "\<not> (k = ''rpm-group'' \<and> ''group'' \<in> fst ` set fpm)"
  shows "\<exists>e. run_fpm w fpm template_data = (Inl e, [])"
proof -
  from rename_generic_keeps [OF assms(1,2,5,6)]
  obtain k' where "(k', v) \<in> set (rename_generic fpm)" ..
  from add_options_unformattable [OF this assms(3,4)]
  have "\<exists>e. add_options w td acc (rename_generic fpm) = Inl e" for td acc .
  then obtain e where
    "add_options w (dict_update template_data fpm)
       (base_cmds (path_join PKG_AREA PKG_SUBDIR), []) (rename_generic fpm) = Inl e"
    by blast
  then have "\<exists>e. fpm_command w fpm template_data = Inl e"
    by (simp add: fpm_command_def Let_def split: option.splits)
  then show ?thesis by (auto simp: run_fpm_def)
qed

text \<open>The dict \<^verbatim>\<open>{"iteration": 5}\<close>: the number has no \<^verbatim>\<open>format\<close> method.\<close>

theorem run_fpm_unformattable_witness:
  "distinct (map fst [(''iteration'', JNum 5)]) \<and>
   (''iteration'', JNum 5) \<in> set [(''iteration'', JNum 5)] \<and>
   JNum 5 \<in> set (as_list (JNum 5)) \<and> \<not> is_flag_or_text (JNum 5) \<and>
   (\<exists>e. run_fpm demo_world [(''iteration'', JNum 5)] [] = (Inl e, [])) \<and>
   run_fpm demo_world [(''iteration'', JNum 5)] [] = (Inl (Raise AttributeError ''format''), [])"
proof -
  have r: "run_fpm demo_world [(''iteration'', JNum 5)] [] =
     (Inl (Raise AttributeError ''format''), [])"
    by code_simp
  have ex: "\<exists>e. run_fpm demo_world [(''iteration'', JNum 5)] [] = (Inl e, [])"
    using run_fpm_unformattable [of "[(''iteration'', JNum 5)]" "''iteration''" "JNum 5" "JNum 5"
      demo_world "[]"]
    by simp
  from ex r show ?thesis by simp
qed

text \<open>
  C10 as stated fails: in the dict \<^verbatim>\<open>{"rpm-user": 5, "user": "joe"}\<close> the number stands
  under \<^verbatim>\<open>rpm-user\<close>, which the renaming of \<^verbatim>\<open>user\<close> overwrites, and the command is built
  and executed.
\<close>

theorem run_fpm_overwritten_number_counterexample:
  "run_fpm demo_world [(''rpm-user'', JNum 5), (''user'', JStr ''joe'')] [] =
     (Inr [], [base_cmds ''/tmp/yoda-packages/packages'' @ [''--rpm-user'', ''joe'']])"
  by code_simp

end
